theory Spec2Isabelle
  imports Main "HOL-Library.Word"
begin

section \<open>The OCSP status registry of gigvault/ocsp (internal/api/grpc\_server.go)\<close>

text \<open>
  The three handlers of \<^verbatim>\<open>OCSPGRPCServer\<close> (UpdateStatus, CheckStatus,
  BatchUpdateStatus) are embedded as functions that pass the server's state explicitly.
  The relational store behind \<^verbatim>\<open>pgxpool.Pool\<close> and the clock of the process are
  outside the repository; they are parameters of the model (record \<open>world\<close>), so every
  theorem holds for every behaviour of the store and of the clock.
\<close>

subsection \<open>Time\<close>

text \<open>
  A point in time is a number of nanoseconds since the epoch and a \<^verbatim>\<open>time.Duration\<close>
  is a number of nanoseconds. \<^verbatim>\<open>24 * time.Hour\<close> in the Go code and
  \<^verbatim>\<open>INTERVAL '24 hours'\<close> in the SQL text are the same duration.
\<close>

type_synonym time = int

definition time_Hour :: int where
  "time_Hour = 3600000000000"

definition hours24 :: int where
  "hours24 = 24 * time_Hour"

subsection \<open>Messages of the service\<close>

record UpdateStatusRequest =
  SerialNumber :: string
  Status :: string
  RevokedAt :: "time option"
  RevocationReason :: string

record UpdateStatusResponse =
  Success :: bool
  Message :: string

record CheckStatusRequest =
  check_SerialNumber :: string

text \<open>
  In the response \<open>resp_RevokedAt\<close> is a pointer (\<open>None\<close> is nil) and
  \<open>resp_RevocationReason\<close> is a proto3 string, whose unset value is the empty string.
\<close>

record CheckStatusResponse =
  resp_Status :: string
  resp_ThisUpdate :: time
  resp_NextUpdate :: time
  resp_RevokedAt :: "time option"
  resp_RevocationReason :: string

record BatchUpdateStatusRequest =
  Updates :: "UpdateStatusRequest list"

type_synonym int32 = "32 word"

record BatchUpdateStatusResponse =
  SuccessCount :: int32
  FailureCount :: int32
  Errors :: "string list"

subsection \<open>gRPC status errors\<close>

datatype codes = InvalidArgument | Internal

datatype rpc_error = status_Error codes string

fun code_String :: "codes \<Rightarrow> string" where
  "code_String InvalidArgument = ''InvalidArgument''"
| "code_String Internal = ''Internal''"

text \<open>\<^verbatim>\<open>err.Error()\<close> of a status error, as grpc-go prints it.\<close>

fun err_Error :: "rpc_error \<Rightarrow> string" where
  "err_Error (status_Error c m) = ''rpc error: code = '' @ code_String c @ '' desc = '' @ m"

subsection \<open>The store\<close>

text \<open>
  A row of table \<^verbatim>\<open>ocsp_responses\<close>, with the columns the two SQL statements of the
  source name; \<open>serial\<close> is the key of the table, so the table is a map from serials.
  \<open>revoked_at\<close> receives a \<^verbatim>\<open>*time.Time\<close> (nil is NULL); \<open>revocation_reason\<close>
  receives and is scanned into a Go \<^verbatim>\<open>string\<close>.
\<close>

record row =
  status :: string
  this_update :: time
  next_update :: time
  revoked_at :: "time option"
  revocation_reason :: string

text \<open>The statements the handlers send to the pool, with their arguments.\<close>

datatype stmt =
  Upsert string string "time option" string
| Select string

text \<open>
  The state of the pool: the table, and the statements sent so far (in order, whether
  or not the store completed them).
\<close>

record pool =
  ocsp_responses :: "string \<rightharpoonup> row"
  sent :: "stmt list"

text \<open>
  How the store answers a statement: it cannot complete it and the driver returns an
  error with a cause, or it runs it, with \<^verbatim>\<open>NOW()\<close> evaluating to the given time.
\<close>

datatype db_event = Fails string | Runs time

text \<open>
  The environment: \<open>db_event_at w n\<close> is the answer of the store to the \<open>n\<close>-th
  statement sent to the pool, and \<open>clock_at w n\<close> is the \<open>n\<close>-th reading of
  \<^verbatim>\<open>time.Now()\<close> (numbered from 0).
\<close>

record world =
  db_event_at :: "nat \<Rightarrow> db_event"
  clock_at :: "nat \<Rightarrow> time"

text \<open>
  \<^verbatim>\<open>INSERT ... VALUES ($1, $2, NOW(), NOW() + INTERVAL '24 hours', $3, $4)
  ON CONFLICT (serial) DO UPDATE SET ...\<close>: a single statement, in which every
  \<^verbatim>\<open>NOW()\<close> is the same instant. A statement the store cannot complete changes no row.
\<close>

definition Exec_upsert ::
  "world \<Rightarrow> pool \<Rightarrow> string \<Rightarrow> string \<Rightarrow> time option \<Rightarrow> string \<Rightarrow> pool \<times> string option" where
  "Exec_upsert w p serial st revokedAt reason =
     (let p' = p\<lparr>sent := sent p @ [Upsert serial st revokedAt reason]\<rparr> in
      case db_event_at w (length (sent p)) of
        Fails cause \<Rightarrow> (p', Some cause)
      | Runs now \<Rightarrow>
          (case ocsp_responses p serial of
             None \<Rightarrow>
               (p'\<lparr>ocsp_responses := (ocsp_responses p)(serial \<mapsto>
                   \<lparr>status = st, this_update = now, next_update = now + hours24,
                    revoked_at = revokedAt, revocation_reason = reason\<rparr>)\<rparr>, None)
           | Some old \<Rightarrow>
               (p'\<lparr>ocsp_responses := (ocsp_responses p)(serial \<mapsto>
                   old\<lparr>status := st, this_update := now, next_update := now + hours24,
                       revoked_at := revokedAt, revocation_reason := reason\<rparr>)\<rparr>, None)))"

text \<open>
  \<^verbatim>\<open>SELECT ... FROM ocsp_responses WHERE serial = $1\<close> followed by \<^verbatim>\<open>Scan\<close>:
  the error is the driver's when the store cannot complete the query, and
  \<^verbatim>\<open>pgx.ErrNoRows\<close> when no row has the serial.
\<close>

definition QueryRow_Scan :: "world \<Rightarrow> pool \<Rightarrow> string \<Rightarrow> pool \<times> (string + row)" where
  "QueryRow_Scan w p serial =
     (let p' = p\<lparr>sent := sent p @ [Select serial]\<rparr> in
      case db_event_at w (length (sent p)) of
        Fails cause \<Rightarrow> (p', Inl cause)
      | Runs now \<Rightarrow>
          (case ocsp_responses p serial of
             None \<Rightarrow> (p', Inl ''no rows in result set'')
           | Some r \<Rightarrow> (p', Inr r)))"

subsection \<open>The logger\<close>

datatype level = InfoLevel | WarnLevel | ErrorLevel

datatype zap_field =
  zap_String string string
| zap_Int string nat
| zap_Error string

datatype log_entry = Log level string "zap_field list"

subsection \<open>The server\<close>

text \<open>
  The state a handler works on: the pool \<open>db\<close> and the \<open>logger\<close> of
  \<^verbatim>\<open>OCSPGRPCServer\<close> (as the entries written so far), and the number of clock
  readings the process has made.
\<close>

record OCSPGRPCServer =
  db :: pool
  logger :: "log_entry list"
  clock_reads :: nat

definition logger_Info :: "string \<Rightarrow> zap_field list \<Rightarrow> OCSPGRPCServer \<Rightarrow> OCSPGRPCServer" where
  "logger_Info msg fs s = s\<lparr>logger := logger s @ [Log InfoLevel msg fs]\<rparr>"

definition logger_Warn :: "string \<Rightarrow> zap_field list \<Rightarrow> OCSPGRPCServer \<Rightarrow> OCSPGRPCServer" where
  "logger_Warn msg fs s = s\<lparr>logger := logger s @ [Log WarnLevel msg fs]\<rparr>"

definition logger_Error :: "string \<Rightarrow> zap_field list \<Rightarrow> OCSPGRPCServer \<Rightarrow> OCSPGRPCServer" where
  "logger_Error msg fs s = s\<lparr>logger := logger s @ [Log ErrorLevel msg fs]\<rparr>"

definition time_Now :: "world \<Rightarrow> OCSPGRPCServer \<Rightarrow> OCSPGRPCServer \<times> time" where
  "time_Now w s = (s\<lparr>clock_reads := Suc (clock_reads s)\<rparr>, clock_at w (clock_reads s))"

subsection \<open>UpdateStatus\<close>

text \<open>
  The assignment \<^verbatim>\<open>req.Status = "good"\<close> of the source writes to the request the
  caller passed; no handler reads a request again after UpdateStatus has returned, and the
  model binds the changed request to \<open>req\<close>.
\<close>

definition UpdateStatus ::
  "world \<Rightarrow> OCSPGRPCServer \<Rightarrow> UpdateStatusRequest
     \<Rightarrow> OCSPGRPCServer \<times> (rpc_error + UpdateStatusResponse)" where
  "UpdateStatus w s0 req0 =
     (let s = logger_Info ''Received UpdateStatus request''
                [zap_String ''serial'' (SerialNumber req0),
                 zap_String ''status'' (Status req0)] s0
      in
      if SerialNumber req0 = ''''
      then (s, Inl (status_Error InvalidArgument ''serial number is required''))
      else
        let req = (if Status req0 = '''' then req0\<lparr>Status := ''good''\<rparr> else req0) in
        if Status req \<noteq> ''good'' \<and> Status req \<noteq> ''revoked'' \<and> Status req \<noteq> ''unknown''
        then (s, Inl (status_Error InvalidArgument
                        ''invalid status (must be: good, revoked, or unknown)''))
        else
          let revokedAt =
                (if Status req = ''revoked'' \<and> RevokedAt req \<noteq> None
                 then RevokedAt req else None);
              (p, err) = Exec_upsert w (db s) (SerialNumber req) (Status req)
                           revokedAt (RevocationReason req)
          in
          case err of
            Some cause \<Rightarrow>
              (logger_Error ''Failed to update OCSP status'' [zap_Error cause] (s\<lparr>db := p\<rparr>),
               Inl (status_Error Internal ''failed to update status''))
          | None \<Rightarrow>
              (logger_Info ''OCSP status updated''
                 [zap_String ''serial'' (SerialNumber req)] (s\<lparr>db := p\<rparr>),
               Inr \<lparr>Success = True, Message = ''status updated successfully''\<rparr>))"

subsection \<open>CheckStatus\<close>

definition CheckStatus ::
  "world \<Rightarrow> OCSPGRPCServer \<Rightarrow> CheckStatusRequest
     \<Rightarrow> OCSPGRPCServer \<times> (rpc_error + CheckStatusResponse)" where
  "CheckStatus w s0 req =
     (let s = logger_Info ''Received CheckStatus request''
                [zap_String ''serial'' (check_SerialNumber req)] s0
      in
      if check_SerialNumber req = ''''
      then (s, Inl (status_Error InvalidArgument ''serial number is required''))
      else
        let (p, scanned) = QueryRow_Scan w (db s) (check_SerialNumber req) in
        case scanned of
          Inl cause \<Rightarrow>
            (let s1 = logger_Warn ''Certificate status not found''
                        [zap_String ''serial'' (check_SerialNumber req)] (s\<lparr>db := p\<rparr>);
                 (s2, t1) = time_Now w s1;
                 (s3, t2) = time_Now w s2
             in (s3, Inr \<lparr>resp_Status = ''unknown'',
                          resp_ThisUpdate = t1,
                          resp_NextUpdate = t2 + hours24,
                          resp_RevokedAt = None,
                          resp_RevocationReason = ''''\<rparr>))
        | Inr r \<Rightarrow>
            (let resp = \<lparr>resp_Status = status r,
                         resp_ThisUpdate = this_update r,
                         resp_NextUpdate = next_update r,
                         resp_RevokedAt = None,
                         resp_RevocationReason = ''''\<rparr>;
                 resp = (if revoked_at r \<noteq> None
                         then resp\<lparr>resp_RevokedAt := revoked_at r,
                                   resp_RevocationReason := revocation_reason r\<rparr>
                         else resp)
             in (logger_Info ''OCSP status checked''
                   [zap_String ''serial'' (check_SerialNumber req),
                    zap_String ''status'' (status r)] (s\<lparr>db := p\<rparr>),
                 Inr resp)))"

subsection \<open>BatchUpdateStatus\<close>

text \<open>
  The \<^verbatim>\<open>for ... range req.Updates\<close> loop with its three local variables. The
  counters are Go \<^verbatim>\<open>int\<close>s (64 bits) that count iterations from 0, so they never
  wrap; they are natural numbers here.
\<close>

fun batch_loop ::
  "world \<Rightarrow> OCSPGRPCServer \<Rightarrow> UpdateStatusRequest list \<Rightarrow> nat \<Rightarrow> nat \<Rightarrow> string list
     \<Rightarrow> OCSPGRPCServer \<times> nat \<times> nat \<times> string list" where
  "batch_loop w s [] successCount failureCount errors =
     (s, successCount, failureCount, errors)"
| "batch_loop w s (update # rest) successCount failureCount errors =
     (case UpdateStatus w s update of
        (s', Inl err) \<Rightarrow>
          batch_loop w s' rest successCount (failureCount + 1) (errors @ [err_Error err])
      | (s', Inr _) \<Rightarrow>
          batch_loop w s' rest (successCount + 1) failureCount errors)"

text \<open>The conversion \<^verbatim>\<open>int32(n)\<close> keeps the low 32 bits.\<close>

definition to_int32 :: "nat \<Rightarrow> int32" where
  "to_int32 n = word_of_nat n"

definition BatchUpdateStatus ::
  "world \<Rightarrow> OCSPGRPCServer \<Rightarrow> BatchUpdateStatusRequest
     \<Rightarrow> OCSPGRPCServer \<times> (rpc_error + BatchUpdateStatusResponse)" where
  "BatchUpdateStatus w s0 req =
     (let s = logger_Info ''Received BatchUpdateStatus request''
                [zap_Int ''count'' (length (Updates req))] s0;
          (s', successCount, failureCount, errors) = batch_loop w s (Updates req) 0 0 []
      in (logger_Info ''Batch update completed''
            [zap_Int ''success'' successCount, zap_Int ''failure'' failureCount] s',
          Inr \<lparr>SuccessCount = to_int32 successCount,
               FailureCount = to_int32 failureCount,
               Errors = errors\<rparr>))"

subsection \<open>Sequences of calls\<close>

datatype call =
  CallUpdate UpdateStatusRequest
| CallCheck CheckStatusRequest
| CallBatch BatchUpdateStatusRequest

fun serve :: "world \<Rightarrow> OCSPGRPCServer \<Rightarrow> call \<Rightarrow> OCSPGRPCServer" where
  "serve w s (CallUpdate req) = fst (UpdateStatus w s req)"
| "serve w s (CallCheck req) = fst (CheckStatus w s req)"
| "serve w s (CallBatch req) = fst (BatchUpdateStatus w s req)"

fun run :: "world \<Rightarrow> OCSPGRPCServer \<Rightarrow> call list \<Rightarrow> OCSPGRPCServer" where
  "run w s [] = s"
| "run w s (c # cs) = run w (serve w s c) cs"

subsection \<open>Notions of the specification\<close>

text \<open>The status values the specification admits.\<close>

definition valid_status :: "string \<Rightarrow> bool" where
  "valid_status st = (st = ''good'' \<or> st = ''revoked'' \<or> st = ''unknown'')"

text \<open>
  Two values UpdateStatus computes before it writes: the status after the default for an
  empty status has been applied (line 42 of the source), and the pointer \<^verbatim>\<open>revokedAt\<close>
  it passes to the store (lines 63 to 67).
\<close>

definition effective_status :: "UpdateStatusRequest \<Rightarrow> string" where
  "effective_status req = (if Status req = [] then ''good'' else Status req)"

definition stored_revoked_at :: "UpdateStatusRequest \<Rightarrow> time option" where
  "stored_revoked_at req =
     (if effective_status req = ''revoked'' \<and> RevokedAt req \<noteq> None
      then RevokedAt req else None)"

text \<open>
  The specification of BatchUpdateStatus, in its words: UpdateStatus is invoked once per
  item, in input order, each on the state its predecessor left. \<open>item_results\<close> is the
  list of the outcomes, \<open>after_items\<close> the state after the last item, and
  \<open>failure_messages\<close> the error messages of the failed items, in order.
\<close>

fun item_results ::
  "world \<Rightarrow> OCSPGRPCServer \<Rightarrow> UpdateStatusRequest list
     \<Rightarrow> (rpc_error + UpdateStatusResponse) list" where
  "item_results w s [] = []"
| "item_results w s (u # us) =
     snd (UpdateStatus w s u) # item_results w (fst (UpdateStatus w s u)) us"

fun after_items :: "world \<Rightarrow> OCSPGRPCServer \<Rightarrow> UpdateStatusRequest list \<Rightarrow> OCSPGRPCServer" where
  "after_items w s [] = s"
| "after_items w s (u # us) = after_items w (fst (UpdateStatus w s u)) us"

definition failure_messages :: "(rpc_error + UpdateStatusResponse) list \<Rightarrow> string list" where
  "failure_messages rs = map (\<lambda>r. err_Error (projl r)) (filter isl rs)"

definition failures :: "(rpc_error + UpdateStatusResponse) list \<Rightarrow> nat" where
  "failures rs = length (filter isl rs)"

definition successes :: "(rpc_error + UpdateStatusResponse) list \<Rightarrow> nat" where
  "successes rs = length (filter (\<lambda>r. \<not> isl r) rs)"

text \<open>The freshness window of every row of the table is exactly 24 hours.\<close>

definition window_ok :: "pool \<Rightarrow> bool" where
  "window_ok p =
     (\<forall>serial r. ocsp_responses p serial = Some r \<longrightarrow> next_update r = this_update r + hours24)"

subsection \<open>Concrete states, environments and requests\<close>

definition empty_server :: OCSPGRPCServer where
  "empty_server =
     \<lparr>db = \<lparr>ocsp_responses = Map.empty, sent = []\<rparr>, logger = [], clock_reads = 0\<rparr>"

text \<open>
  A store that runs every statement, one that runs the first statement only, and one that
  runs none.
\<close>

definition steady_world :: world where
  "steady_world =
     \<lparr>db_event_at = (\<lambda>n. Runs (1000 + int n)), clock_at = (\<lambda>n. 5000 + int n)\<rparr>"

definition flaky_world :: world where
  "flaky_world =
     \<lparr>db_event_at = (\<lambda>n. if n = 0 then Runs 1000 else Fails ''connection refused''),
      clock_at = (\<lambda>n. 5000 + int n)\<rparr>"

definition down_world :: world where
  "down_world =
     \<lparr>db_event_at = (\<lambda>n. Fails ''connection refused''), clock_at = (\<lambda>n. 5000 + int n)\<rparr>"

definition no_serial :: UpdateStatusRequest where
  "no_serial =
     \<lparr>SerialNumber = '''', Status = ''good'', RevokedAt = None, RevocationReason = ''''\<rparr>"

definition revoke_ABC123 :: UpdateStatusRequest where
  "revoke_ABC123 =
     \<lparr>SerialNumber = ''ABC123'', Status = ''revoked'', RevokedAt = Some 900,
      RevocationReason = ''key-compromise''\<rparr>"

definition good_with_reason :: UpdateStatusRequest where
  "good_with_reason =
     \<lparr>SerialNumber = ''ABC123'', Status = ''good'', RevokedAt = None,
      RevocationReason = ''key-compromise''\<rparr>"

definition bogus_status :: UpdateStatusRequest where
  "bogus_status =
     \<lparr>SerialNumber = ''ABC123'', Status = ''expired'', RevokedAt = None, RevocationReason = ''''\<rparr>"

definition sample_calls :: "call list" where
  "sample_calls =
     [CallUpdate revoke_ABC123,
      CallCheck \<lparr>check_SerialNumber = ''ABC123''\<rparr>,
      CallBatch \<lparr>Updates = [good_with_reason, no_serial, bogus_status]\<rparr>]"

definition mixed_batch :: BatchUpdateStatusRequest where
  "mixed_batch = \<lparr>Updates = [revoke_ABC123, no_serial, good_with_reason]\<rparr>"

section \<open>Properties\<close>

subsection \<open>Logging and clock readings leave the pool alone\<close>

lemma db_logger_Info: "db (logger_Info m fs s) = db s"
  by (simp add: logger_Info_def)

lemma db_logger_Warn: "db (logger_Warn m fs s) = db s"
  by (simp add: logger_Warn_def)

lemma db_logger_Error: "db (logger_Error m fs s) = db s"
  by (simp add: logger_Error_def)

lemma db_time_Now: "db (fst (time_Now w s)) = db s"
  by (simp add: time_Now_def)

lemmas db_log = db_logger_Info db_logger_Warn db_logger_Error db_time_Now

subsection \<open>The cases of UpdateStatus\<close>

lemma row_replaced:
  "(old :: row)\<lparr>status := st, this_update := t, next_update := n,
        revoked_at := rv, revocation_reason := reason\<rparr> =
   \<lparr>status = st, this_update = t, next_update = n, revoked_at = rv, revocation_reason = reason\<rparr>"
  by (cases old) simp

lemma pool_written:
  "(p :: pool)\<lparr>sent := xs, ocsp_responses := m\<rparr> = \<lparr>ocsp_responses = m, sent = xs\<rparr>"
  by (cases p) simp

lemma Exec_upsert_cases:
  "Exec_upsert w p serial st rv reason =
     (case db_event_at w (length (sent p)) of
        Fails cause \<Rightarrow> (p\<lparr>sent := sent p @ [Upsert serial st rv reason]\<rparr>, Some cause)
      | Runs now \<Rightarrow>
          (\<lparr>ocsp_responses = (ocsp_responses p)(serial \<mapsto>
               \<lparr>status = st, this_update = now, next_update = now + hours24,
                revoked_at = rv, revocation_reason = reason\<rparr>),
            sent = sent p @ [Upsert serial st rv reason]\<rparr>, None))"
  by (simp add: Exec_upsert_def Let_def row_replaced pool_written split: db_event.splits option.splits)

lemma UpdateStatus_invalid:
  "SerialNumber req \<noteq> [] \<Longrightarrow> \<not> valid_status (effective_status req) \<Longrightarrow>
   UpdateStatus w s req =
     (logger_Info ''Received UpdateStatus request''
                [zap_String ''serial'' (SerialNumber req),
                 zap_String ''status'' (Status req)] s,
      Inl (status_Error InvalidArgument ''invalid status (must be: good, revoked, or unknown)''))"
  unfolding UpdateStatus_def Let_def valid_status_def effective_status_def
  by (cases "Status req = []") simp_all

lemma UpdateStatus_no_serial:
  "SerialNumber req = [] \<Longrightarrow>
   UpdateStatus w s req =
     (logger_Info ''Received UpdateStatus request''
                [zap_String ''serial'' (SerialNumber req),
                 zap_String ''status'' (Status req)] s,
      Inl (status_Error InvalidArgument ''serial number is required''))"
  unfolding UpdateStatus_def Let_def
  by simp

lemma UpdateStatus_valid:
  assumes "SerialNumber req \<noteq> []" and "valid_status (effective_status req)"
  shows "UpdateStatus w s req =
     (let s1 = logger_Info ''Received UpdateStatus request''
                [zap_String ''serial'' (SerialNumber req),
                 zap_String ''status'' (Status req)] s;
          p = fst (Exec_upsert w (db s) (SerialNumber req) (effective_status req)
                           (stored_revoked_at req) (RevocationReason req))
      in case db_event_at w (length (sent (db s))) of
            Fails cause \<Rightarrow>
              (logger_Error ''Failed to update OCSP status'' [zap_Error cause] (s1\<lparr>db := p\<rparr>),
               Inl (status_Error Internal ''failed to update status''))
          | Runs now \<Rightarrow>
              (logger_Info ''OCSP status updated''
                 [zap_String ''serial'' (SerialNumber req)] (s1\<lparr>db := p\<rparr>),
               Inr \<lparr>Success = True, Message = ''status updated successfully''\<rparr>))"
proof (cases "Status req = []")
  case True
  with assms show ?thesis
    unfolding UpdateStatus_def Let_def effective_status_def stored_revoked_at_def
    by (simp add: Exec_upsert_cases db_logger_Info split: db_event.splits)
next
  case False
  with assms show ?thesis
    unfolding UpdateStatus_def Let_def effective_status_def stored_revoked_at_def valid_status_def
    by (simp add: Exec_upsert_cases db_logger_Info split: db_event.splits)
qed

subsection \<open>The loop of BatchUpdateStatus\<close>

lemma batch_loop_eq:
  "batch_loop w s us sc fc es =
     (after_items w s us,
      sc + successes (item_results w s us),
      fc + failures (item_results w s us),
      es @ failure_messages (item_results w s us))"
proof (induction us arbitrary: s sc fc es)
  case Nil
  then show ?case by (simp add: failure_messages_def failures_def successes_def)
next
  case (Cons u us)
  obtain s' r where ur: "UpdateStatus w s u = (s', r)" by (cases "UpdateStatus w s u")
  show ?case
  proof (cases r)
    case (Inl e)
    with ur Cons show ?thesis by (simp add: failure_messages_def failures_def successes_def)
  next
    case (Inr a)
    with ur Cons show ?thesis by (simp add: failure_messages_def failures_def successes_def)
  qed
qed

lemma length_item_results: "length (item_results w s us) = length us"
  by (induction us arbitrary: s) simp_all

lemma successes_failures: "successes rs + failures rs = length rs"
  by (induction rs) (simp_all add: failures_def successes_def)

lemma length_failure_messages: "length (failure_messages rs) = failures rs"
  by (simp add: failure_messages_def failures_def)

lemma BatchUpdateStatus_eq:
  "BatchUpdateStatus w s req =
     (let s1 = logger_Info ''Received BatchUpdateStatus request''
                [zap_Int ''count'' (length (Updates req))] s;
          rs = item_results w s1 (Updates req)
      in (logger_Info ''Batch update completed''
            [zap_Int ''success'' (successes rs), zap_Int ''failure'' (failures rs)]
            (after_items w s1 (Updates req)),
          Inr \<lparr>SuccessCount = to_int32 (successes rs), FailureCount = to_int32 (failures rs),
               Errors = failure_messages rs\<rparr>))"
  by (simp add: BatchUpdateStatus_def Let_def batch_loop_eq)

text \<open>UpdateStatus reads and writes nothing of the state but the pool.\<close>

lemma UpdateStatus_db_only:
  "db s = db t \<Longrightarrow>
     snd (UpdateStatus w s req) = snd (UpdateStatus w t req)
     \<and> db (fst (UpdateStatus w s req)) = db (fst (UpdateStatus w t req))"
proof -
  assume eq: "db s = db t"
  show ?thesis
  proof (cases "SerialNumber req = []")
    case True
    then show ?thesis by (simp add: UpdateStatus_no_serial db_log eq)
  next
    case serial: False
    show ?thesis
    proof (cases "valid_status (effective_status req)")
      case False
      with serial show ?thesis by (simp add: UpdateStatus_invalid db_log eq)
    next
      case True
      with serial show ?thesis
        by (simp add: UpdateStatus_valid Let_def db_log eq split: db_event.splits)
    qed
  qed
qed

lemma item_results_db_only:
  "db s = db t \<Longrightarrow> item_results w s us = item_results w t us"
proof (induction us arbitrary: s t)
  case Nil
  show ?case by simp
next
  case (Cons u us)
  from UpdateStatus_db_only [OF Cons.prems, of w u]
  have a: "snd (UpdateStatus w s u) = snd (UpdateStatus w t u)"
    and b: "db (fst (UpdateStatus w s u)) = db (fst (UpdateStatus w t u))" by simp_all
  from Cons.IH [OF b] a show ?case by simp
qed

lemma after_items_db_only:
  "db s = db t \<Longrightarrow> db (after_items w s us) = db (after_items w t us)"
proof (induction us arbitrary: s t)
  case Nil
  then show ?case by simp
next
  case (Cons u us)
  from UpdateStatus_db_only [OF Cons.prems, of w u]
  have b: "db (fst (UpdateStatus w s u)) = db (fst (UpdateStatus w t u))" by simp
  from Cons.IH [OF b] show ?case by simp
qed

subsection \<open>The conversion to int32\<close>

lemma sint_to_int32_gen: "sint (to_int32 n) = signed_take_bit 31 (int n)"
  unfolding to_int32_def by (simp add: signed_of_nat)

lemma sint_to_int32: "n < 2 ^ 31 \<Longrightarrow> sint (to_int32 n) = int n"
proof -
  assume "n < 2 ^ 31"
  then have "int n < 2 ^ 31" by simp
  moreover have "- (2 ^ 31) \<le> int n" by simp
  ultimately have "signed_take_bit 31 (int n) = int n"
    by (rule signed_take_bit_int_eq_self [rotated])
  then show ?thesis by (simp add: sint_to_int32_gen)
qed

lemma sint_to_int32_wrap: "sint (to_int32 2147483648) = - 2147483648"
  by (simp add: sint_to_int32_gen signed_take_bit_eq_take_bit_shift)

subsection \<open>The cases of CheckStatus, and what UpdateStatus writes\<close>

lemma QueryRow_Scan_table: "ocsp_responses (fst (QueryRow_Scan w p serial)) = ocsp_responses p"
  by (simp add: QueryRow_Scan_def Let_def split: db_event.splits option.splits)

lemma CheckStatus_table:
  "ocsp_responses (db (fst (CheckStatus w s req))) = ocsp_responses (db s)"
  by (simp add: CheckStatus_def Let_def db_log time_Now_def QueryRow_Scan_def
        split: db_event.splits option.splits)

lemma CheckStatus_not_scanned:
  assumes "check_SerialNumber req \<noteq> []"
    and "ocsp_responses (db s) (check_SerialNumber req) = None
         \<or> (\<exists>cause. db_event_at w (length (sent (db s))) = Fails cause)"
  shows "snd (CheckStatus w s req) =
           Inr \<lparr>resp_Status = ''unknown'',
                resp_ThisUpdate = clock_at w (clock_reads s),
                resp_NextUpdate = clock_at w (Suc (clock_reads s)) + hours24,
                resp_RevokedAt = None,
                resp_RevocationReason = ''''\<rparr>"
  using assms
  by (auto simp add: CheckStatus_def Let_def db_log time_Now_def QueryRow_Scan_def
        logger_Info_def logger_Warn_def split: db_event.splits option.splits)

lemma CheckStatus_scanned:
  assumes "check_SerialNumber req \<noteq> []"
    and "db_event_at w (length (sent (db s))) = Runs t"
    and "ocsp_responses (db s) (check_SerialNumber req) = Some r"
  shows "snd (CheckStatus w s req) =
           Inr \<lparr>resp_Status = status r,
                resp_ThisUpdate = this_update r,
                resp_NextUpdate = next_update r,
                resp_RevokedAt = revoked_at r,
                resp_RevocationReason = (if revoked_at r \<noteq> None then revocation_reason r else '''')\<rparr>"
  using assms
  by (auto simp add: CheckStatus_def Let_def db_log QueryRow_Scan_def logger_Info_def)

lemma UpdateStatus_Inr_iff:
  "(\<exists>ok. snd (UpdateStatus w s req) = Inr ok) \<longleftrightarrow>
     SerialNumber req \<noteq> [] \<and> valid_status (effective_status req)
     \<and> (\<exists>now. db_event_at w (length (sent (db s))) = Runs now)"
proof (cases "SerialNumber req = []")
  case True
  then show ?thesis by (simp add: UpdateStatus_no_serial)
next
  case serial: False
  show ?thesis
  proof (cases "valid_status (effective_status req)")
    case False
    with serial show ?thesis by (simp add: UpdateStatus_invalid)
  next
    case True
    with serial show ?thesis
      by (simp add: UpdateStatus_valid Let_def split: db_event.splits)
  qed
qed

lemma UpdateStatus_written:
  assumes "snd (UpdateStatus w s req) = Inr ok"
  shows "\<exists>now. db_event_at w (length (sent (db s))) = Runs now \<and>
     db (fst (UpdateStatus w s req)) =
       \<lparr>ocsp_responses = (ocsp_responses (db s))(SerialNumber req \<mapsto>
           \<lparr>status = effective_status req, this_update = now, next_update = now + hours24,
            revoked_at = stored_revoked_at req, revocation_reason = RevocationReason req\<rparr>),
        sent = sent (db s) @ [Upsert (SerialNumber req) (effective_status req)
                                (stored_revoked_at req) (RevocationReason req)]\<rparr>"
proof -
  from assms have "\<exists>ok. snd (UpdateStatus w s req) = Inr ok" by blast
  then obtain now where a: "SerialNumber req \<noteq> []" "valid_status (effective_status req)"
    "db_event_at w (length (sent (db s))) = Runs now"
    unfolding UpdateStatus_Inr_iff by blast
  then show ?thesis
    by (simp add: UpdateStatus_valid Let_def db_log Exec_upsert_cases)
qed

lemma UpdateStatus_not_written:
  assumes "snd (UpdateStatus w s req) = Inl e"
  shows "ocsp_responses (db (fst (UpdateStatus w s req))) = ocsp_responses (db s)"
proof (cases "SerialNumber req = []")
  case True
  then show ?thesis by (simp add: UpdateStatus_no_serial db_log)
next
  case serial: False
  show ?thesis
  proof (cases "valid_status (effective_status req)")
    case False
    with serial show ?thesis by (simp add: UpdateStatus_invalid db_log)
  next
    case True
    with serial assms show ?thesis
      by (simp add: UpdateStatus_valid Let_def db_log Exec_upsert_cases split: db_event.splits)
  qed
qed

subsection \<open>When the store cannot complete a statement\<close>

lemma UpdateStatus_store_failure:
  assumes "SerialNumber req \<noteq> []" and "valid_status (effective_status req)"
    and "db_event_at w (length (sent (db s))) = Fails cause"
  shows "snd (UpdateStatus w s req) = Inl (status_Error Internal ''failed to update status'')"
  using assms by (simp add: UpdateStatus_valid Let_def)

lemma CheckStatus_store_failure:
  assumes "check_SerialNumber req \<noteq> []"
    and "db_event_at w (length (sent (db s))) = Fails cause"
  shows "snd (CheckStatus w s req) =
           Inr \<lparr>resp_Status = ''unknown'',
                resp_ThisUpdate = clock_at w (clock_reads s),
                resp_NextUpdate = clock_at w (Suc (clock_reads s)) + hours24,
                resp_RevokedAt = None,
                resp_RevocationReason = ''''\<rparr>"
  using assms by (simp add: CheckStatus_not_scanned)

lemma UpdateStatus_clock_reads: "clock_reads (fst (UpdateStatus w s req)) = clock_reads s"
proof (cases "SerialNumber req = []")
  case True
  then show ?thesis by (simp add: UpdateStatus_no_serial logger_Info_def)
next
  case serial: False
  show ?thesis
  proof (cases "valid_status (effective_status req)")
    case False
    with serial show ?thesis by (simp add: UpdateStatus_invalid logger_Info_def)
  next
    case True
    with serial show ?thesis
      by (simp add: UpdateStatus_valid Let_def logger_Info_def logger_Error_def
            split: db_event.splits)
  qed
qed

subsection \<open>The freshness window is preserved\<close>

lemma window_ok_UpdateStatus:
  assumes "window_ok (db s)"
  shows "window_ok (db (fst (UpdateStatus w s req)))"
proof (cases "snd (UpdateStatus w s req)")
  case (Inl e)
  from UpdateStatus_not_written [OF Inl] assms show ?thesis
    by (simp add: window_ok_def)
next
  case (Inr ok)
  from UpdateStatus_written [OF Inr] assms show ?thesis
    by (auto simp add: window_ok_def split: if_splits)
qed

lemma window_ok_after_items:
  "window_ok (db s) \<Longrightarrow> window_ok (db (after_items w s us))"
  by (induction us arbitrary: s) (simp_all add: window_ok_UpdateStatus)

lemma window_ok_BatchUpdateStatus:
  "window_ok (db s) \<Longrightarrow> window_ok (db (fst (BatchUpdateStatus w s req)))"
  by (simp add: BatchUpdateStatus_eq Let_def db_log window_ok_after_items)

lemma window_ok_CheckStatus:
  "window_ok (db s) \<Longrightarrow> window_ok (db (fst (CheckStatus w s req)))"
  by (simp add: window_ok_def CheckStatus_table)

lemma window_ok_serve: "window_ok (db s) \<Longrightarrow> window_ok (db (serve w s c))"
  by (cases c)
     (simp_all add: window_ok_UpdateStatus window_ok_CheckStatus window_ok_BatchUpdateStatus)

subsection \<open>Batches of requests without a serial, and a mixed batch\<close>

lemma item_results_replicate_no_serial:
  "SerialNumber u = [] \<Longrightarrow> item_results w s (replicate n u) =
     replicate n (Inl (status_Error InvalidArgument ''serial number is required''))"
  by (induction n arbitrary: s) (simp_all add: UpdateStatus_no_serial)

lemma failure_messages_replicate_Inl:
  "failure_messages (replicate n (Inl e)) = replicate n (err_Error e)"
  by (induction n) (simp_all add: failure_messages_def)

lemma successes_replicate_Inl: "successes (replicate n (Inl e)) = 0"
  by (simp add: successes_def)

lemma failures_replicate_Inl: "failures (replicate n (Inl e)) = n"
  by (simp add: failures_def)

lemma BatchUpdateStatus_all_without_serial:
  assumes "SerialNumber u = []"
  shows "snd (BatchUpdateStatus w s \<lparr>Updates = replicate n u\<rparr>) =
     Inr \<lparr>SuccessCount = 0, FailureCount = to_int32 n,
          Errors = replicate n
            ''rpc error: code = InvalidArgument desc = serial number is required''\<rparr>"
  by (simp add: BatchUpdateStatus_eq Let_def item_results_replicate_no_serial [OF assms]
        failure_messages_replicate_Inl successes_replicate_Inl failures_replicate_Inl
        to_int32_def)

lemma item_results_mixed_batch:
  "item_results steady_world empty_server (Updates mixed_batch) =
     [Inr \<lparr>Success = True, Message = ''status updated successfully''\<rparr>,
      Inl (status_Error InvalidArgument ''serial number is required''),
      Inr \<lparr>Success = True, Message = ''status updated successfully''\<rparr>]"
  by (simp add: mixed_batch_def UpdateStatus_def Let_def Exec_upsert_def logger_Info_def
        revoke_ABC123_def no_serial_def good_with_reason_def steady_world_def empty_server_def)

subsection \<open>CheckStatus after UpdateStatus, when the store answers the lookup\<close>

text \<open>
  After a valid UpdateStatus that succeeds, a CheckStatus on the same serial whose lookup
  the store answers returns the status written.
\<close>

lemma CheckStatus_after_UpdateStatus:
  assumes "SerialNumber req \<noteq> []"
    and "valid_status (Status req)"
    and "UpdateStatus w s req = (s', Inr ok)"
    and "db_event_at w' (length (sent (db s'))) = Runs t"
  shows "\<exists>resp. snd (CheckStatus w' s' \<lparr>check_SerialNumber = SerialNumber req\<rparr>) = Inr resp
           \<and> resp_Status resp = Status req"
proof -
  from assms(3) have ok: "snd (UpdateStatus w s req) = Inr ok"
    and s': "s' = fst (UpdateStatus w s req)" by simp_all
  from assms(2) have eff: "effective_status req = Status req"
    by (auto simp add: effective_status_def valid_status_def)
  from UpdateStatus_written [OF ok] obtain now where
    "db s' = \<lparr>ocsp_responses = (ocsp_responses (db s))(SerialNumber req \<mapsto>
           \<lparr>status = effective_status req, this_update = now, next_update = now + hours24,
            revoked_at = stored_revoked_at req, revocation_reason = RevocationReason req\<rparr>),
        sent = sent (db s) @ [Upsert (SerialNumber req) (effective_status req)
                                (stored_revoked_at req) (RevocationReason req)]\<rparr>"
    unfolding s' by blast
  then have row: "ocsp_responses (db s') (SerialNumber req) =
      Some \<lparr>status = Status req, this_update = now, next_update = now + hours24,
            revoked_at = stored_revoked_at req, revocation_reason = RevocationReason req\<rparr>"
    by (simp add: eff)
  have "check_SerialNumber \<lparr>check_SerialNumber = SerialNumber req\<rparr> \<noteq> []"
    using assms(1) by simp
  from CheckStatus_scanned [OF this assms(4)] row
  show ?thesis by simp
qed

lemma CheckStatus_after_UpdateStatus_example:
  "SerialNumber revoke_ABC123 \<noteq> []
   \<and> valid_status (Status revoke_ABC123)
   \<and> snd (UpdateStatus steady_world empty_server revoke_ABC123) =
       Inr \<lparr>Success = True, Message = ''status updated successfully''\<rparr>
   \<and> db_event_at steady_world
        (length (sent (db (fst (UpdateStatus steady_world empty_server revoke_ABC123))))) = Runs 1001
   \<and> resp_Status (projr (snd (CheckStatus steady_world
          (fst (UpdateStatus steady_world empty_server revoke_ABC123))
          \<lparr>check_SerialNumber = ''ABC123''\<rparr>))) = ''revoked''"
proof -
  let ?s' = "fst (UpdateStatus steady_world empty_server revoke_ABC123)"
  let ?ok = "\<lparr>Success = True, Message = ''status updated successfully''\<rparr>"
  have h1: "SerialNumber revoke_ABC123 \<noteq> []" by (simp add: revoke_ABC123_def)
  have h2: "valid_status (Status revoke_ABC123)" by (simp add: revoke_ABC123_def valid_status_def)
  have v: "valid_status (effective_status revoke_ABC123)"
    by (simp add: revoke_ABC123_def valid_status_def effective_status_def)
  have ev: "db_event_at steady_world (length (sent (db empty_server))) = Runs 1000"
    by (simp add: steady_world_def empty_server_def)
  have r: "snd (UpdateStatus steady_world empty_server revoke_ABC123) = Inr ?ok"
    by (simp add: UpdateStatus_valid [OF h1 v] Let_def ev)
  then have h3: "UpdateStatus steady_world empty_server revoke_ABC123 = (?s', Inr ?ok)"
    by (simp add: prod_eq_iff)
  have len: "length (sent (db ?s')) = 1"
    using UpdateStatus_written [OF r] by (auto simp add: empty_server_def)
  have h4: "db_event_at steady_world (length (sent (db ?s'))) = Runs 1001"
    unfolding len by (simp add: steady_world_def)
  from CheckStatus_after_UpdateStatus [OF h1 h2 h3 h4]
  have "resp_Status (projr (snd (CheckStatus steady_world ?s'
          \<lparr>check_SerialNumber = SerialNumber revoke_ABC123\<rparr>))) = Status revoke_ABC123"
    by auto
  then have "resp_Status (projr (snd (CheckStatus steady_world ?s'
          \<lparr>check_SerialNumber = ''ABC123''\<rparr>))) = ''revoked''"
    by (simp add: revoke_ABC123_def)
  with h1 h2 r h4 show ?thesis by simp
qed

section \<open>The claims\<close>

text \<open>
  Claim C1. After a valid UpdateStatus call (non-empty serial, status good, revoked or
  unknown) that succeeds, a CheckStatus on the same serial that follows it is to return
  exactly that status. It does when the store answers the lookup
  (\<open>CheckStatus_after_UpdateStatus\<close>). When the store cannot complete the lookup,
  CheckStatus takes the branch the source comments as ``Certificate not found'' and returns
  a success response with status unknown, which the caller cannot tell from an answer of
  the store. Below, UpdateStatus stores the serial ABC123 as good and succeeds, the store
  then refuses the connection, and CheckStatus on ABC123 answers unknown.
\<close>

theorem CheckStatus_after_UpdateStatus_store_failure:
  "SerialNumber good_with_reason \<noteq> []
   \<and> valid_status (Status good_with_reason)
   \<and> Status good_with_reason = ''good''
   \<and> snd (UpdateStatus flaky_world empty_server good_with_reason) =
       Inr \<lparr>Success = True, Message = ''status updated successfully''\<rparr>
   \<and> map_option status
        (ocsp_responses (db (fst (UpdateStatus flaky_world empty_server good_with_reason)))
           ''ABC123'') = Some ''good''
   \<and> snd (CheckStatus flaky_world (fst (UpdateStatus flaky_world empty_server good_with_reason))
           \<lparr>check_SerialNumber = SerialNumber good_with_reason\<rparr>) =
       Inr \<lparr>resp_Status = ''unknown'', resp_ThisUpdate = 5000,
            resp_NextUpdate = 5001 + hours24, resp_RevokedAt = None,
            resp_RevocationReason = ''''\<rparr>"
proof -
  let ?s' = "fst (UpdateStatus flaky_world empty_server good_with_reason)"
  have h1: "SerialNumber good_with_reason \<noteq> []" by (simp add: good_with_reason_def)
  have h2: "valid_status (Status good_with_reason)"
    by (simp add: good_with_reason_def valid_status_def)
  have h3: "Status good_with_reason = ''good''" by (simp add: good_with_reason_def)
  have v: "valid_status (effective_status good_with_reason)"
    by (simp add: good_with_reason_def valid_status_def effective_status_def)
  have ev: "db_event_at flaky_world (length (sent (db empty_server))) = Runs 1000"
    by (simp add: flaky_world_def empty_server_def)
  have r: "snd (UpdateStatus flaky_world empty_server good_with_reason) =
             Inr \<lparr>Success = True, Message = ''status updated successfully''\<rparr>"
    by (simp add: UpdateStatus_valid [OF h1 v] Let_def ev)
  from UpdateStatus_written [OF r] ev
  have d: "db ?s' =
       \<lparr>ocsp_responses = (ocsp_responses (db empty_server))(SerialNumber good_with_reason \<mapsto>
           \<lparr>status = effective_status good_with_reason, this_update = 1000,
            next_update = 1000 + hours24,
            revoked_at = stored_revoked_at good_with_reason,
            revocation_reason = RevocationReason good_with_reason\<rparr>),
        sent = sent (db empty_server) @ [Upsert (SerialNumber good_with_reason)
                 (effective_status good_with_reason)
                 (stored_revoked_at good_with_reason) (RevocationReason good_with_reason)]\<rparr>"
    by auto
  have a: "map_option status (ocsp_responses (db ?s') ''ABC123'') = Some ''good''"
    unfolding d by (simp add: good_with_reason_def effective_status_def)
  have len: "length (sent (db ?s')) = 1"
    unfolding d by (simp add: empty_server_def)
  have b: "db_event_at flaky_world (length (sent (db ?s'))) = Fails ''connection refused''"
    unfolding len by (simp add: flaky_world_def)
  have reads: "clock_reads ?s' = 0"
    by (simp add: UpdateStatus_clock_reads empty_server_def)
  have ck: "clock_at flaky_world 0 = 5000" "clock_at flaky_world (Suc 0) = 5001"
    by (simp_all add: flaky_world_def)
  have "check_SerialNumber \<lparr>check_SerialNumber = SerialNumber good_with_reason\<rparr> \<noteq> []"
    using h1 by simp
  from CheckStatus_store_failure [OF this b]
  have c: "snd (CheckStatus flaky_world ?s'
                 \<lparr>check_SerialNumber = SerialNumber good_with_reason\<rparr>) =
       Inr \<lparr>resp_Status = ''unknown'', resp_ThisUpdate = 5000,
            resp_NextUpdate = 5001 + hours24, resp_RevokedAt = None,
            resp_RevocationReason = ''''\<rparr>"
    by (simp add: reads ck)
  from h1 h2 h3 r a c show ?thesis by (intro conjI)
qed

text \<open>
  Claim C2. When the store cannot complete the statement of an operation, the caller is to
  receive a server error and never a success response. UpdateStatus does so
  (\<open>UpdateStatus_store_failure\<close>: code Internal with a fixed message, the cause only in
  the log). CheckStatus does not: every error of the lookup takes the branch the source
  comments as ``Certificate not found'', and the caller receives a success response with
  status unknown. Below, the serial ABC123 is stored as revoked, the store then refuses the
  connection, and CheckStatus answers unknown.
\<close>

theorem CheckStatus_store_failure_answers_unknown:
  "ocsp_responses (db (fst (UpdateStatus flaky_world empty_server revoke_ABC123))) ''ABC123'' =
     Some \<lparr>status = ''revoked'', this_update = 1000, next_update = 1000 + hours24,
           revoked_at = Some 900, revocation_reason = ''key-compromise''\<rparr>
   \<and> db_event_at flaky_world
        (length (sent (db (fst (UpdateStatus flaky_world empty_server revoke_ABC123))))) =
       Fails ''connection refused''
   \<and> snd (CheckStatus flaky_world (fst (UpdateStatus flaky_world empty_server revoke_ABC123))
           \<lparr>check_SerialNumber = ''ABC123''\<rparr>) =
       Inr \<lparr>resp_Status = ''unknown'', resp_ThisUpdate = 5000,
            resp_NextUpdate = 5001 + hours24, resp_RevokedAt = None,
            resp_RevocationReason = ''''\<rparr>"
proof -
  let ?s' = "fst (UpdateStatus flaky_world empty_server revoke_ABC123)"
  have h1: "SerialNumber revoke_ABC123 \<noteq> []" by (simp add: revoke_ABC123_def)
  have v: "valid_status (effective_status revoke_ABC123)"
    by (simp add: revoke_ABC123_def valid_status_def effective_status_def)
  have ev: "db_event_at flaky_world (length (sent (db empty_server))) = Runs 1000"
    by (simp add: flaky_world_def empty_server_def)
  have r: "snd (UpdateStatus flaky_world empty_server revoke_ABC123) =
             Inr \<lparr>Success = True, Message = ''status updated successfully''\<rparr>"
    by (simp add: UpdateStatus_valid [OF h1 v] Let_def ev)
  from UpdateStatus_written [OF r] ev
  have d: "db ?s' =
       \<lparr>ocsp_responses = (ocsp_responses (db empty_server))(SerialNumber revoke_ABC123 \<mapsto>
           \<lparr>status = effective_status revoke_ABC123, this_update = 1000,
            next_update = 1000 + hours24,
            revoked_at = stored_revoked_at revoke_ABC123,
            revocation_reason = RevocationReason revoke_ABC123\<rparr>),
        sent = sent (db empty_server) @ [Upsert (SerialNumber revoke_ABC123)
                 (effective_status revoke_ABC123)
                 (stored_revoked_at revoke_ABC123) (RevocationReason revoke_ABC123)]\<rparr>"
    by auto
  have a: "ocsp_responses (db ?s') ''ABC123'' =
     Some \<lparr>status = ''revoked'', this_update = 1000, next_update = 1000 + hours24,
           revoked_at = Some 900, revocation_reason = ''key-compromise''\<rparr>"
    unfolding d by (simp add: revoke_ABC123_def effective_status_def stored_revoked_at_def)
  have len: "length (sent (db ?s')) = 1"
    unfolding d by (simp add: empty_server_def)
  have b: "db_event_at flaky_world (length (sent (db ?s'))) = Fails ''connection refused''"
    unfolding len by (simp add: flaky_world_def)
  have reads: "clock_reads ?s' = 0"
    by (simp add: UpdateStatus_clock_reads empty_server_def)
  have ck: "clock_at flaky_world 0 = 5000" "clock_at flaky_world (Suc 0) = 5001"
    by (simp_all add: flaky_world_def)
  have "check_SerialNumber \<lparr>check_SerialNumber = ''ABC123''\<rparr> \<noteq> []" by simp
  from CheckStatus_store_failure [OF this b]
  have c: "snd (CheckStatus flaky_world ?s' \<lparr>check_SerialNumber = ''ABC123''\<rparr>) =
       Inr \<lparr>resp_Status = ''unknown'', resp_ThisUpdate = 5000,
            resp_NextUpdate = 5001 + hours24, resp_RevokedAt = None,
            resp_RevocationReason = ''''\<rparr>"
    by (simp add: reads ck)
  from a b c show ?thesis by simp
qed

text \<open>
  Claim C3. For every non-empty serial with no stored record, CheckStatus returns a
  successful response with status unknown, thisUpdate the current time, nextUpdate the
  current time plus 24 hours, and no revocation fields, whether the store answers the
  query or not. The source reads the clock once for each of the two fields
  (\<^verbatim>\<open>timestamppb.Now()\<close>, then \<^verbatim>\<open>time.Now().Add(24 * time.Hour)\<close>), so each field
  holds the time of its own reading.
\<close>

theorem CheckStatus_no_record_unknown:
  "check_SerialNumber req \<noteq> [] \<Longrightarrow> ocsp_responses (db s) (check_SerialNumber req) = None \<Longrightarrow>
     snd (CheckStatus w s req) =
       Inr \<lparr>resp_Status = ''unknown'',
            resp_ThisUpdate = clock_at w (clock_reads s),
            resp_NextUpdate = clock_at w (Suc (clock_reads s)) + hours24,
            resp_RevokedAt = None,
            resp_RevocationReason = ''''\<rparr>"
  by (simp add: CheckStatus_not_scanned)

theorem CheckStatus_no_record_unknown_witness:
  "check_SerialNumber \<lparr>check_SerialNumber = ''ABC123''\<rparr> \<noteq> []
   \<and> ocsp_responses (db empty_server) (check_SerialNumber \<lparr>check_SerialNumber = ''ABC123''\<rparr>) = None
   \<and> snd (CheckStatus steady_world empty_server \<lparr>check_SerialNumber = ''ABC123''\<rparr>) =
       Inr \<lparr>resp_Status = ''unknown'',
            resp_ThisUpdate = 5000,
            resp_NextUpdate = 5001 + 86400000000000,
            resp_RevokedAt = None,
            resp_RevocationReason = ''''\<rparr>"
proof -
  have h1: "check_SerialNumber \<lparr>check_SerialNumber = ''ABC123''\<rparr> \<noteq> []" by simp
  have h2: "ocsp_responses (db empty_server)
              (check_SerialNumber \<lparr>check_SerialNumber = ''ABC123''\<rparr>) = None"
    by (simp add: empty_server_def)
  from CheckStatus_no_record_unknown [OF h1 h2, of steady_world] h1 h2
  show ?thesis by (simp add: steady_world_def empty_server_def hours24_def time_Hour_def)
qed

text \<open>
  Claim C4, as amended. In the record a successful UpdateStatus stores, \<open>revoked_at\<close> is
  the supplied timestamp when the status is revoked and a timestamp was supplied, and absent
  otherwise; \<open>revocation_reason\<close> is the supplied reason in every case (the source passes
  \<^verbatim>\<open>req.RevocationReason\<close> to the statement unconditionally). CheckStatus reports the
  reason only when \<open>revoked_at\<close> is present (\<open>CheckStatus_scanned\<close>).
\<close>

theorem UpdateStatus_stored_revocation_fields:
  assumes "UpdateStatus w s req = (s', Inr ok)"
  shows "\<exists>r. ocsp_responses (db s') (SerialNumber req) = Some r
           \<and> revoked_at r =
               (if Status req = ''revoked'' \<and> RevokedAt req \<noteq> None then RevokedAt req else None)
           \<and> revocation_reason r = RevocationReason req"
proof -
  from assms have ok: "snd (UpdateStatus w s req) = Inr ok"
    and s': "s' = fst (UpdateStatus w s req)" by simp_all
  have rv: "stored_revoked_at req =
      (if Status req = ''revoked'' \<and> RevokedAt req \<noteq> None then RevokedAt req else None)"
    by (simp add: stored_revoked_at_def effective_status_def)
  from UpdateStatus_written [OF ok] show ?thesis
    unfolding s' rv by auto
qed

theorem UpdateStatus_stored_revocation_fields_witness:
  "snd (UpdateStatus steady_world empty_server revoke_ABC123) =
       Inr \<lparr>Success = True, Message = ''status updated successfully''\<rparr>
   \<and> map_option revoked_at
        (ocsp_responses (db (fst (UpdateStatus steady_world empty_server revoke_ABC123))) ''ABC123'')
       = Some (Some 900)
   \<and> map_option revocation_reason
        (ocsp_responses (db (fst (UpdateStatus steady_world empty_server revoke_ABC123))) ''ABC123'')
       = Some ''key-compromise''"
proof -
  let ?s' = "fst (UpdateStatus steady_world empty_server revoke_ABC123)"
  let ?ok = "\<lparr>Success = True, Message = ''status updated successfully''\<rparr>"
  have h1: "SerialNumber revoke_ABC123 \<noteq> []" by (simp add: revoke_ABC123_def)
  have v: "valid_status (effective_status revoke_ABC123)"
    by (simp add: revoke_ABC123_def valid_status_def effective_status_def)
  have ev: "db_event_at steady_world (length (sent (db empty_server))) = Runs 1000"
    by (simp add: steady_world_def empty_server_def)
  have r: "snd (UpdateStatus steady_world empty_server revoke_ABC123) = Inr ?ok"
    by (simp add: UpdateStatus_valid [OF h1 v] Let_def ev)
  then have h: "UpdateStatus steady_world empty_server revoke_ABC123 = (?s', Inr ?ok)"
    by (simp add: prod_eq_iff)
  from UpdateStatus_stored_revocation_fields [OF h]
  have "\<exists>r. ocsp_responses (db ?s') ''ABC123'' = Some r
           \<and> revoked_at r = Some 900 \<and> revocation_reason r = ''key-compromise''"
    by (simp add: revoke_ABC123_def)
  with r show ?thesis by auto
qed

text \<open>
  The reason is stored also when the status is good and no timestamp was supplied, so it is
  not stored as absent in that case.
\<close>

theorem UpdateStatus_reason_stored_without_revocation:
  "Status good_with_reason = ''good'' \<and> RevokedAt good_with_reason = None
   \<and> snd (UpdateStatus steady_world empty_server good_with_reason) =
       Inr \<lparr>Success = True, Message = ''status updated successfully''\<rparr>
   \<and> ocsp_responses (db (fst (UpdateStatus steady_world empty_server good_with_reason))) ''ABC123'' =
       Some \<lparr>status = ''good'', this_update = 1000, next_update = 1000 + hours24,
             revoked_at = None, revocation_reason = ''key-compromise''\<rparr>"
proof -
  have h1: "SerialNumber good_with_reason \<noteq> []" by (simp add: good_with_reason_def)
  have v: "valid_status (effective_status good_with_reason)"
    by (simp add: good_with_reason_def valid_status_def effective_status_def)
  have ev: "db_event_at steady_world (length (sent (db empty_server))) = Runs 1000"
    by (simp add: steady_world_def empty_server_def)
  have r: "snd (UpdateStatus steady_world empty_server good_with_reason) =
             Inr \<lparr>Success = True, Message = ''status updated successfully''\<rparr>"
    by (simp add: UpdateStatus_valid [OF h1 v] Let_def ev)
  from UpdateStatus_written [OF r] ev
  have "ocsp_responses (db (fst (UpdateStatus steady_world empty_server good_with_reason)))
          (SerialNumber good_with_reason) =
        Some \<lparr>status = effective_status good_with_reason, this_update = 1000,
              next_update = 1000 + hours24,
              revoked_at = stored_revoked_at good_with_reason,
              revocation_reason = RevocationReason good_with_reason\<rparr>"
    by auto
  then have "ocsp_responses (db (fst (UpdateStatus steady_world empty_server good_with_reason)))
          ''ABC123'' =
       Some \<lparr>status = ''good'', this_update = 1000, next_update = 1000 + hours24,
             revoked_at = None, revocation_reason = ''key-compromise''\<rparr>"
    by (simp add: good_with_reason_def effective_status_def stored_revoked_at_def)
  with r show ?thesis by (simp add: good_with_reason_def)
qed

text \<open>
  Claim C5, as amended. For every sequence of updates, BatchUpdateStatus invokes
  UpdateStatus on every item, in order, whatever the outcome of the items before it (the
  final store is the one left by the last item, and there is one outcome per item), and
  \<open>Errors\<close> is the ordered sequence of the error messages of exactly the failed items.
  When the sequence has fewer than \<open>2 ^ 31\<close> items, the two counts of the response are
  the numbers of succeeded and of failed items, their sum is the length of the sequence, and
  the length of \<open>Errors\<close> is the failure count. The counts of the response are int32
  values, to which the source converts its counters.
\<close>

theorem BatchUpdateStatus_counts_and_errors:
  "(\<exists>resp. snd (BatchUpdateStatus w s req) = Inr resp
       \<and> Errors resp = failure_messages (item_results w s (Updates req))
       \<and> length (Errors resp) = failures (item_results w s (Updates req))
       \<and> (length (Updates req) < 2 ^ 31 \<longrightarrow>
            sint (SuccessCount resp) = int (successes (item_results w s (Updates req)))
            \<and> sint (FailureCount resp) = int (failures (item_results w s (Updates req)))
            \<and> sint (SuccessCount resp) + sint (FailureCount resp) = int (length (Updates req))
            \<and> int (length (Errors resp)) = sint (FailureCount resp)))
   \<and> length (item_results w s (Updates req)) = length (Updates req)
   \<and> db (fst (BatchUpdateStatus w s req)) = db (after_items w s (Updates req))"
proof -
  let ?s1 = "logger_Info ''Received BatchUpdateStatus request''
                [zap_Int ''count'' (length (Updates req))] s"
  let ?rs = "item_results w s (Updates req)"
  have d: "db ?s1 = db s" by (simp add: db_log)
  have rs: "item_results w ?s1 (Updates req) = ?rs" by (rule item_results_db_only [OF d])
  have sf: "successes ?rs + failures ?rs = length (Updates req)"
    by (simp add: successes_failures length_item_results)
  have counts: "sint (to_int32 (successes ?rs)) = int (successes ?rs)
       \<and> sint (to_int32 (failures ?rs)) = int (failures ?rs)"
    if "length (Updates req) < 2 ^ 31"
  proof -
    from that sf have "successes ?rs < 2 ^ 31" and "failures ?rs < 2 ^ 31" by linarith+
    then show ?thesis by (simp add: sint_to_int32)
  qed
  have resp: "snd (BatchUpdateStatus w s req) =
      Inr \<lparr>SuccessCount = to_int32 (successes ?rs), FailureCount = to_int32 (failures ?rs),
           Errors = failure_messages ?rs\<rparr>"
    by (simp add: BatchUpdateStatus_eq Let_def rs)
  have st: "db (fst (BatchUpdateStatus w s req)) = db (after_items w s (Updates req))"
    by (simp add: BatchUpdateStatus_eq Let_def db_log after_items_db_only [OF d])
  from sf have sfi: "int (successes ?rs) + int (failures ?rs) = int (length (Updates req))"
    by linarith
  show ?thesis
    using resp st counts sfi
    by (simp add: length_failure_messages length_item_results)
qed

theorem BatchUpdateStatus_counts_and_errors_witness:
  "length (Updates mixed_batch) < 2 ^ 31
   \<and> sint (SuccessCount (projr (snd (BatchUpdateStatus steady_world empty_server mixed_batch)))) = 2
   \<and> sint (FailureCount (projr (snd (BatchUpdateStatus steady_world empty_server mixed_batch)))) = 1
   \<and> Errors (projr (snd (BatchUpdateStatus steady_world empty_server mixed_batch))) =
       [''rpc error: code = InvalidArgument desc = serial number is required'']"
proof -
  have h: "length (Updates mixed_batch) < 2 ^ 31" by (simp add: mixed_batch_def)
  have s: "successes (item_results steady_world empty_server (Updates mixed_batch)) = 2"
    and f: "failures (item_results steady_world empty_server (Updates mixed_batch)) = 1"
    and m: "failure_messages (item_results steady_world empty_server (Updates mixed_batch)) =
       [''rpc error: code = InvalidArgument desc = serial number is required'']"
    unfolding item_results_mixed_batch
    by (simp_all add: successes_def failures_def failure_messages_def)
  from BatchUpdateStatus_counts_and_errors [of steady_world empty_server mixed_batch] h
  show ?thesis unfolding s f m by auto
qed

text \<open>
  At \<open>2 ^ 31\<close> items without a serial the failure count of the response has wrapped to
  \<open>- 2 ^ 31\<close>, and the two counts no longer add up to the number of items.
\<close>

theorem BatchUpdateStatus_counts_wrap:
  "snd (BatchUpdateStatus steady_world empty_server \<lparr>Updates = replicate 2147483648 no_serial\<rparr>) =
     Inr \<lparr>SuccessCount = 0, FailureCount = to_int32 2147483648,
          Errors = replicate 2147483648
            ''rpc error: code = InvalidArgument desc = serial number is required''\<rparr>
   \<and> sint (0 :: int32) + sint (to_int32 2147483648) = - 2147483648
   \<and> length (Updates \<lparr>Updates = replicate 2147483648 no_serial\<rparr>) = 2147483648"
proof -
  have ns: "SerialNumber no_serial = []" by (simp add: no_serial_def)
  have a: "snd (BatchUpdateStatus steady_world empty_server
                 \<lparr>Updates = replicate 2147483648 no_serial\<rparr>) =
     Inr \<lparr>SuccessCount = 0, FailureCount = to_int32 2147483648,
          Errors = replicate 2147483648
            ''rpc error: code = InvalidArgument desc = serial number is required''\<rparr>"
    by (rule BatchUpdateStatus_all_without_serial [OF ns])
  have b: "sint (0 :: int32) + sint (to_int32 2147483648) = - 2147483648"
    by (simp add: sint_to_int32_wrap)
  have c: "length (Updates \<lparr>Updates = replicate 2147483648 no_serial\<rparr>) = 2147483648"
    by (simp only: BatchUpdateStatusRequest.simps length_replicate)
  from a b c show ?thesis by (intro conjI)
qed

text \<open>
  Claim C6. Every UpdateStatus call with an empty serial fails with InvalidArgument (the
  transport form of InvalidInput) and performs no store write: the pool, that is the table
  and the list of statements sent, is what it was before the call.
\<close>

theorem UpdateStatus_empty_serial_no_write:
  "SerialNumber req = [] \<Longrightarrow>
     snd (UpdateStatus w s req) =
       Inl (status_Error InvalidArgument ''serial number is required'')
     \<and> db (fst (UpdateStatus w s req)) = db s"
  by (simp add: UpdateStatus_no_serial db_log)

theorem UpdateStatus_empty_serial_no_write_witness:
  "SerialNumber no_serial = []
   \<and> snd (UpdateStatus steady_world empty_server no_serial) =
       Inl (status_Error InvalidArgument ''serial number is required'')
   \<and> db (fst (UpdateStatus steady_world empty_server no_serial)) = db empty_server"
proof -
  have h: "SerialNumber no_serial = []" by (simp add: no_serial_def)
  from UpdateStatus_empty_serial_no_write [OF h, of steady_world empty_server] h
  show ?thesis by simp
qed

text \<open>
  Claim C7. Every UpdateStatus call with a non-empty status outside good, revoked and
  unknown fails with InvalidArgument, whatever the serial, and no store access is
  attempted: no statement is sent and the table is unchanged.
\<close>

theorem UpdateStatus_unrecognized_status_rejected:
  "Status req \<noteq> [] \<Longrightarrow> \<not> valid_status (Status req) \<Longrightarrow>
     (\<exists>m. snd (UpdateStatus w s req) = Inl (status_Error InvalidArgument m))
     \<and> db (fst (UpdateStatus w s req)) = db s"
proof -
  assume a: "Status req \<noteq> []" and b: "\<not> valid_status (Status req)"
  then have inv: "\<not> valid_status (effective_status req)" by (simp add: effective_status_def)
  show ?thesis
  proof (cases "SerialNumber req = []")
    case True
    then show ?thesis by (simp add: UpdateStatus_no_serial db_log)
  next
    case False
    with inv show ?thesis by (simp add: UpdateStatus_invalid db_log)
  qed
qed

theorem UpdateStatus_unrecognized_status_rejected_witness:
  "Status bogus_status \<noteq> [] \<and> \<not> valid_status (Status bogus_status)
   \<and> snd (UpdateStatus steady_world empty_server bogus_status) =
       Inl (status_Error InvalidArgument ''invalid status (must be: good, revoked, or unknown)'')
   \<and> db (fst (UpdateStatus steady_world empty_server bogus_status)) = db empty_server"
proof -
  have h1: "Status bogus_status \<noteq> []" by (simp add: bogus_status_def)
  have h2: "\<not> valid_status (Status bogus_status)" by (simp add: bogus_status_def valid_status_def)
  have r: "snd (UpdateStatus steady_world empty_server bogus_status) =
       Inl (status_Error InvalidArgument ''invalid status (must be: good, revoked, or unknown)'')"
    by (simp add: UpdateStatus_def Let_def bogus_status_def)
  from UpdateStatus_unrecognized_status_rejected [OF h1 h2, of steady_world empty_server] h1 h2 r
  show ?thesis by simp
qed

text \<open>
  Claim C8. For every serial and revocation arguments, UpdateStatus with an empty status
  returns the same result and leaves the same store state (table and statements sent) as
  the same call with status good. Only the first log entry, which records the status as
  received, differs.
\<close>

theorem UpdateStatus_omitted_status_is_good:
  "snd (UpdateStatus w s (req\<lparr>Status := ''''\<rparr>)) = snd (UpdateStatus w s (req\<lparr>Status := ''good''\<rparr>))
   \<and> db (fst (UpdateStatus w s (req\<lparr>Status := ''''\<rparr>))) =
       db (fst (UpdateStatus w s (req\<lparr>Status := ''good''\<rparr>)))"
proof (cases "SerialNumber req = []")
  case True
  then show ?thesis by (simp add: UpdateStatus_no_serial db_log)
next
  case False
  have v1: "valid_status (effective_status (req\<lparr>Status := ''''\<rparr>))"
    and v2: "valid_status (effective_status (req\<lparr>Status := ''good''\<rparr>))"
    by (simp_all add: effective_status_def valid_status_def)
  from False show ?thesis
    by (simp add: UpdateStatus_valid [OF _ v1] UpdateStatus_valid [OF _ v2] Let_def db_log
          effective_status_def stored_revoked_at_def split: db_event.splits)
qed

theorem UpdateStatus_omitted_status_is_good_witness:
  "snd (UpdateStatus steady_world empty_server (revoke_ABC123\<lparr>Status := ''''\<rparr>)) =
     Inr \<lparr>Success = True, Message = ''status updated successfully''\<rparr>
   \<and> snd (UpdateStatus steady_world empty_server (revoke_ABC123\<lparr>Status := ''good''\<rparr>)) =
     Inr \<lparr>Success = True, Message = ''status updated successfully''\<rparr>
   \<and> db (fst (UpdateStatus steady_world empty_server (revoke_ABC123\<lparr>Status := ''''\<rparr>))) =
       db (fst (UpdateStatus steady_world empty_server (revoke_ABC123\<lparr>Status := ''good''\<rparr>)))"
proof -
  have r: "snd (UpdateStatus steady_world empty_server (revoke_ABC123\<lparr>Status := ''good''\<rparr>)) =
     Inr \<lparr>Success = True, Message = ''status updated successfully''\<rparr>"
    by (simp add: UpdateStatus_def Let_def revoke_ABC123_def Exec_upsert_def steady_world_def
          empty_server_def logger_Info_def)
  from UpdateStatus_omitted_status_is_good [of steady_world empty_server revoke_ABC123] r
  show ?thesis by simp
qed

text \<open>
  Claim C9. After every write performed by UpdateStatus, the stored record's
  \<open>next_update\<close> is its \<open>this_update\<close> plus exactly 24 hours; and the property that
  every row of the table has this window is preserved by every sequence of UpdateStatus,
  CheckStatus and BatchUpdateStatus calls, under every behaviour of the store. In
  particular it holds of every record such a sequence produces from the empty table.
\<close>

theorem freshness_window_invariant:
  "(window_ok (db s) \<longrightarrow> window_ok (db (run w s cs)))
   \<and> (UpdateStatus w s req = (s', Inr ok) \<longrightarrow>
        (\<exists>r. ocsp_responses (db s') (SerialNumber req) = Some r
             \<and> next_update r = this_update r + hours24))"
proof
  show "window_ok (db s) \<longrightarrow> window_ok (db (run w s cs))"
  proof (induction cs arbitrary: s)
    case Nil
    show ?case by simp
  next
    case (Cons c cs)
    show ?case
    proof
      assume "window_ok (db s)"
      then have "window_ok (db (serve w s c))" by (rule window_ok_serve)
      with Cons.IH show "window_ok (db (run w s (c # cs)))" by simp
    qed
  qed
next
  show "UpdateStatus w s req = (s', Inr ok) \<longrightarrow>
        (\<exists>r. ocsp_responses (db s') (SerialNumber req) = Some r
             \<and> next_update r = this_update r + hours24)"
  proof
    assume a: "UpdateStatus w s req = (s', Inr ok)"
    then have ok: "snd (UpdateStatus w s req) = Inr ok"
      and s': "s' = fst (UpdateStatus w s req)" by simp_all
    from UpdateStatus_written [OF ok] show "\<exists>r. ocsp_responses (db s') (SerialNumber req) = Some r
             \<and> next_update r = this_update r + hours24"
      unfolding s' by auto
  qed
qed

theorem freshness_window_invariant_witness:
  "window_ok (db empty_server)
   \<and> window_ok (db (run steady_world empty_server sample_calls))
   \<and> snd (UpdateStatus steady_world empty_server revoke_ABC123) =
       Inr \<lparr>Success = True, Message = ''status updated successfully''\<rparr>
   \<and> map_option (\<lambda>r. next_update r - this_update r)
        (ocsp_responses (db (fst (UpdateStatus steady_world empty_server revoke_ABC123))) ''ABC123'')
       = Some 86400000000000"
proof -
  let ?s' = "fst (UpdateStatus steady_world empty_server revoke_ABC123)"
  let ?ok = "\<lparr>Success = True, Message = ''status updated successfully''\<rparr>"
  have h0: "window_ok (db empty_server)" by (simp add: window_ok_def empty_server_def)
  have h1: "SerialNumber revoke_ABC123 \<noteq> []" by (simp add: revoke_ABC123_def)
  have v: "valid_status (effective_status revoke_ABC123)"
    by (simp add: revoke_ABC123_def valid_status_def effective_status_def)
  have ev: "db_event_at steady_world (length (sent (db empty_server))) = Runs 1000"
    by (simp add: steady_world_def empty_server_def)
  have r: "snd (UpdateStatus steady_world empty_server revoke_ABC123) = Inr ?ok"
    by (simp add: UpdateStatus_valid [OF h1 v] Let_def ev)
  then have h: "UpdateStatus steady_world empty_server revoke_ABC123 = (?s', Inr ?ok)"
    by (simp add: prod_eq_iff)
  note t = freshness_window_invariant
             [of empty_server steady_world sample_calls revoke_ABC123 ?s' ?ok]
  from t h0 have a: "window_ok (db (run steady_world empty_server sample_calls))" by blast
  from t h have "\<exists>r. ocsp_responses (db ?s') (SerialNumber revoke_ABC123) = Some r
             \<and> next_update r = this_update r + hours24" by blast
  then have b: "map_option (\<lambda>r. next_update r - this_update r)
        (ocsp_responses (db ?s') ''ABC123'') = Some 86400000000000"
    by (auto simp add: revoke_ABC123_def hours24_def time_Hour_def)
  from h0 a r b show ?thesis by simp
qed

text \<open>
  Claim C10. BatchUpdateStatus itself never returns an error: for every sequence of
  updates, state and behaviour of the store it returns a response, and for the empty
  sequence the response has both counts 0 and no errors.
\<close>

theorem BatchUpdateStatus_never_fails:
  "(\<exists>resp. snd (BatchUpdateStatus w s req) = Inr resp)
   \<and> snd (BatchUpdateStatus w s \<lparr>Updates = []\<rparr>) =
       Inr \<lparr>SuccessCount = 0, FailureCount = 0, Errors = []\<rparr>"
  by (simp add: BatchUpdateStatus_def Let_def to_int32_def split: prod.splits)

theorem BatchUpdateStatus_never_fails_witness:
  "snd (BatchUpdateStatus down_world empty_server \<lparr>Updates = [revoke_ABC123, no_serial]\<rparr>) =
     Inr \<lparr>SuccessCount = 0, FailureCount = 2,
          Errors = [''rpc error: code = Internal desc = failed to update status'',
                    ''rpc error: code = InvalidArgument desc = serial number is required'']\<rparr>
   \<and> snd (BatchUpdateStatus down_world empty_server \<lparr>Updates = []\<rparr>) =
       Inr \<lparr>SuccessCount = 0, FailureCount = 0, Errors = []\<rparr>"
proof -
  have a: "snd (BatchUpdateStatus down_world empty_server \<lparr>Updates = [revoke_ABC123, no_serial]\<rparr>) =
     Inr \<lparr>SuccessCount = 0, FailureCount = 2,
          Errors = [''rpc error: code = Internal desc = failed to update status'',
                    ''rpc error: code = InvalidArgument desc = serial number is required'']\<rparr>"
    by (simp add: BatchUpdateStatus_def Let_def UpdateStatus_def Exec_upsert_def logger_Info_def
        logger_Error_def to_int32_def
        revoke_ABC123_def no_serial_def down_world_def empty_server_def)
  from BatchUpdateStatus_never_fails [of down_world empty_server "\<lparr>Updates = [revoke_ABC123, no_serial]\<rparr>"] a
  show ?thesis by simp
qed

end
